theory Spec2Isabelle
  imports Complex_Main
begin

section \<open>Floating-point values\<close>

text \<open>
  The risk engine of \<^verbatim>\<open>backend/server.py\<close> computes with IEEE doubles (Python
  \<^verbatim>\<open>float\<close>, numpy \<^verbatim>\<open>float64\<close>). A double is modelled as a real number or
  one of the three special values. Finite arithmetic is exact: rounding, overflow of a
  finite result to infinity and the sign of zero are not modelled. What is modelled is where
  the special values come from in this code (division by zero, estimators that are
  undefined on small samples) and how they propagate. Where rounding decides what the
  code returns (the guard \<^verbatim>\<open>volatility > 0\<close> on a series of equal returns), the
  computation is repeated with every operation rounded, in the section on rounded
  arithmetic.
\<close>

datatype fl = Fin real | PInf | NInf | NaN

fun isnan :: "fl \<Rightarrow> bool" where
  "isnan NaN = True"
| "isnan _ = False"

fun isinf :: "fl \<Rightarrow> bool" where
  "isinf PInf = True"
| "isinf NInf = True"
| "isinf _ = False"

fun isfinite :: "fl \<Rightarrow> bool" where
  "isfinite (Fin _) = True"
| "isfinite _ = False"

text \<open>Sign of a value that is not NaN, and the infinity (or NaN) of a given sign.\<close>

fun fl_sgn :: "fl \<Rightarrow> real" where
  "fl_sgn (Fin a) = sgn a"
| "fl_sgn PInf = 1"
| "fl_sgn NInf = - 1"
| "fl_sgn NaN = 0"

definition inf_of_sign :: "real \<Rightarrow> fl" where
  "inf_of_sign s = (if 0 < s then PInf else if s < 0 then NInf else NaN)"

fun fl_neg :: "fl \<Rightarrow> fl" where
  "fl_neg (Fin a) = Fin (- a)"
| "fl_neg PInf = NInf"
| "fl_neg NInf = PInf"
| "fl_neg NaN = NaN"

fun fl_add :: "fl \<Rightarrow> fl \<Rightarrow> fl" where
  "fl_add NaN _ = NaN"
| "fl_add _ NaN = NaN"
| "fl_add (Fin a) (Fin b) = Fin (a + b)"
| "fl_add PInf NInf = NaN"
| "fl_add NInf PInf = NaN"
| "fl_add PInf _ = PInf"
| "fl_add _ PInf = PInf"
| "fl_add NInf _ = NInf"
| "fl_add _ NInf = NInf"

definition fl_sub :: "fl \<Rightarrow> fl \<Rightarrow> fl" where
  "fl_sub a b = fl_add a (fl_neg b)"

fun fl_mul :: "fl \<Rightarrow> fl \<Rightarrow> fl" where
  "fl_mul NaN _ = NaN"
| "fl_mul _ NaN = NaN"
| "fl_mul (Fin a) (Fin b) = Fin (a * b)"
| "fl_mul a b = inf_of_sign (fl_sgn a * fl_sgn b)"

text \<open>
  numpy's division: a zero divisor gives an infinity of the dividend's sign, or NaN for
  \<open>0 / 0\<close>; nothing is raised.
\<close>

fun fl_div :: "fl \<Rightarrow> fl \<Rightarrow> fl" where
  "fl_div NaN _ = NaN"
| "fl_div _ NaN = NaN"
| "fl_div (Fin a) (Fin b) = (if b = 0 then inf_of_sign (sgn a) else Fin (a / b))"
| "fl_div (Fin a) _ = Fin 0"
| "fl_div a (Fin b) = inf_of_sign (fl_sgn a * (if b < 0 then - 1 else 1))"
| "fl_div _ _ = NaN"

fun fl_abs :: "fl \<Rightarrow> fl" where
  "fl_abs (Fin a) = Fin \<bar>a\<bar>"
| "fl_abs PInf = PInf"
| "fl_abs NInf = PInf"
| "fl_abs NaN = NaN"

text \<open>Comparisons: every comparison with NaN is false.\<close>

fun fl_less :: "fl \<Rightarrow> fl \<Rightarrow> bool" where
  "fl_less NaN _ = False"
| "fl_less _ NaN = False"
| "fl_less (Fin a) (Fin b) = (a < b)"
| "fl_less _ NInf = False"
| "fl_less PInf _ = False"
| "fl_less _ _ = True"

definition fl_le :: "fl \<Rightarrow> fl \<Rightarrow> bool" where
  "fl_le a b = (\<not> isnan a \<and> \<not> isnan b \<and> \<not> fl_less b a)"

section \<open>The numeric safety layer\<close>

text \<open>
  \<^verbatim>\<open>
  def safe_float(value, default=0.0):
      if pd.isna(value) or np.isinf(value):
          return default
      return float(value)
  \<close>
\<close>

definition safe_float :: "fl \<Rightarrow> fl \<Rightarrow> fl" where
  "safe_float val dflt = (if isnan val \<or> isinf val then dflt else val)"

text \<open>
  The values \<^verbatim>\<open>clean_data_for_json\<close> walks: dictionaries (in insertion order),
  lists, floats, \<^verbatim>\<open>None\<close>, and scalars that are neither. \<open>PyNaT\<close> is pandas'
  missing timestamp \<^verbatim>\<open>pd.NaT\<close>, a scalar that is not a float and for which
  \<^verbatim>\<open>pd.isna\<close> is true.
\<close>

datatype pyval =
    PyDict "(string \<times> pyval) list"
  | PyList "pyval list"
  | PyFloat fl
  | PyNone
  | PyNaT
  | PyInt int
  | PyStr string
  | PyBool bool

text \<open>\<^verbatim>\<open>pd.isna\<close> on the scalars that reach the fourth branch below.\<close>

fun pd_isna :: "pyval \<Rightarrow> bool" where
  "pd_isna PyNone = True"
| "pd_isna PyNaT = True"
| "pd_isna (PyFloat x) = isnan x"
| "pd_isna _ = False"

text \<open>
  \<^verbatim>\<open>
  def clean_data_for_json(data):
      if isinstance(data, dict):
          return {key: clean_data_for_json(value) for key, value in data.items()}
      elif isinstance(data, list):
          return [clean_data_for_json(item) for item in data]
      elif isinstance(data, float):
          return safe_float(data)
      elif pd.isna(data):
          return None
      else:
          return data
  \<close>
\<close>

fun clean_data_for_json :: "pyval \<Rightarrow> pyval" where
  "clean_data_for_json (PyDict kvs) =
     PyDict (map (\<lambda>(key, v). (key, clean_data_for_json v)) kvs)"
| "clean_data_for_json (PyList xs) = PyList (map clean_data_for_json xs)"
| "clean_data_for_json (PyFloat x) = PyFloat (safe_float x (Fin 0))"
| "clean_data_for_json d = (if pd_isna d then PyNone else d)"

text \<open>A scalar that is not a number: neither a container, nor a float, nor an integer.\<close>

fun non_numeric_scalar :: "pyval \<Rightarrow> bool" where
  "non_numeric_scalar PyNone = True"
| "non_numeric_scalar PyNaT = True"
| "non_numeric_scalar (PyStr _) = True"
| "non_numeric_scalar (PyBool _) = True"
| "non_numeric_scalar _ = False"

section \<open>Data model\<close>

text \<open>
  One entry of \<^verbatim>\<open>historical_data\<close>: a dictionary with the keys \<^verbatim>\<open>"date"\<close>
  and \<^verbatim>\<open>"value"\<close> (field \<open>val\<close> here). A valuation is a finite number: zero and
  negative valuations are inputs, a NaN or infinite valuation is not (what
  \<^verbatim>\<open>pct_change\<close> does with a NaN valuation depends on the pandas version).
\<close>

record hist_point =
  date :: int
  val :: real

text \<open>
  The fields of \<^verbatim>\<open>Portfolio\<close> the calculator reads: \<^verbatim>\<open>id\<close> (field \<open>ident\<close>
  here) and \<^verbatim>\<open>total_value_usd\<close>, a finite number.
\<close>

record Portfolio =
  ident :: string
  total_value_usd :: real

text \<open>
  \<^verbatim>\<open>RiskMetrics\<close>, without the fields the calculator leaves to their defaults
  (\<^verbatim>\<open>id\<close>, \<^verbatim>\<open>correlation_matrix\<close>, \<^verbatim>\<open>timestamp\<close>). The numeric fields are
  floats, so a NaN or an infinity could be stored in them.
\<close>

record RiskMetrics =
  portfolio_id :: string
  value_at_risk :: fl
  conditional_var :: fl
  max_drawdown :: fl
  sharpe_ratio :: fl
  sortino_ratio :: fl
  volatility :: fl
  skewness :: fl
  kurtosis :: fl

datatype py_exception = ZeroDivisionError

text \<open>
  Python's \<^verbatim>\<open>/\<close> on two Python floats raises on a zero divisor (unlike numpy's).
  \<open>safe_float\<close> returns a Python float, so the two ratio computations use this one.
\<close>

definition py_truediv :: "fl \<Rightarrow> fl \<Rightarrow> py_exception + fl" where
  "py_truediv a b = (if b = Fin 0 then Inl ZeroDivisionError else Inr (fl_div a b))"

definition bind_exc :: "py_exception + 'a \<Rightarrow> ('a \<Rightarrow> py_exception + 'b) \<Rightarrow> py_exception + 'b" where
  "bind_exc m k = (case m of Inl e \<Rightarrow> Inl e | Inr x \<Rightarrow> k x)"

section \<open>numpy and pandas operations\<close>

definition mean :: "real list \<Rightarrow> real" where
  "mean xs = sum_list xs / real (length xs)"

text \<open>\<^verbatim>\<open>np.mean\<close>: NaN on an empty array.\<close>

definition np_mean :: "real list \<Rightarrow> fl" where
  "np_mean xs = (if xs = [] then NaN else Fin (mean xs))"

text \<open>
  \<^verbatim>\<open>np.std\<close> with its default \<^verbatim>\<open>ddof=0\<close>: the square root of the mean squared
  deviation from the mean (divisor \<open>n\<close>); NaN on an empty array. This is the exact
  value; what numpy computes in doubles is \<open>np_std_f64\<close> below, which can be positive
  where the exact value is zero.
\<close>

definition pvariance :: "real list \<Rightarrow> real" where
  "pvariance xs = mean (map (\<lambda>x. (x - mean xs)\<^sup>2) xs)"

definition np_std :: "real list \<Rightarrow> fl" where
  "np_std xs = (if xs = [] then NaN else Fin (sqrt (pvariance xs)))"

text \<open>
  \<^verbatim>\<open>np.percentile(a, q)\<close> with the default linear interpolation, for \<open>0 \<le> q \<le> 100\<close>:
  the virtual index \<open>q / 100 * (n - 1)\<close> into the sorted array, interpolated between its
  two neighbours. The index \<open>lo\<close> is at most \<open>n - 1\<close>, so both reads are in range.
\<close>

definition np_percentile :: "real list \<Rightarrow> real \<Rightarrow> fl" where
  "np_percentile a q =
     (if a = [] then NaN
      else let s = sort a;
               n = length a;
               pos = q / 100 * real (n - 1);
               lo = nat \<lfloor>pos\<rfloor>;
               hi = min (lo + 1) (n - 1);
               g = pos - real lo
           in Fin (s ! lo + g * (s ! hi - s ! lo)))"

text \<open>\<^verbatim>\<open>Series.pct_change\<close>: \<open>v\<^sub>i / v\<^sub>i\<^sub>-\<^sub>1 - 1\<close>, NaN in the first row.\<close>

fun pct_pairs :: "real \<Rightarrow> real list \<Rightarrow> fl list" where
  "pct_pairs prev [] = []"
| "pct_pairs prev (v # vs) = fl_sub (fl_div (Fin v) (Fin prev)) (Fin 1) # pct_pairs v vs"

fun pct_change :: "real list \<Rightarrow> fl list" where
  "pct_change [] = []"
| "pct_change (v # vs) = NaN # pct_pairs v vs"

text \<open>
  \<^verbatim>\<open>Series.dropna\<close> keeps the row labels of the rows it keeps; assigning the result
  to a column of the frame aligns it on the frame's labels \<open>0, \<dots>, n - 1\<close> and fills the
  labels it lacks with NaN.
\<close>

definition dropna :: "fl list \<Rightarrow> (nat \<times> fl) list" where
  "dropna xs = filter (\<lambda>(i, x). \<not> isnan x) (enumerate 0 xs)"

definition assign_column :: "nat \<Rightarrow> (nat \<times> fl) list \<Rightarrow> fl list" where
  "assign_column n s = map (\<lambda>i. case map_of s i of None \<Rightarrow> NaN | Some x \<Rightarrow> x) [0..<n]"

text \<open>
  The boolean mask \<^verbatim>\<open>returns[~(np.isnan(returns) | np.isinf(returns))]\<close>; what it keeps
  is finite, and is read as real numbers from here on.
\<close>

definition mask_finite :: "fl list \<Rightarrow> fl list" where
  "mask_finite xs = filter (\<lambda>x. \<not> (isnan x \<or> isinf x)) xs"

definition reals_of :: "fl list \<Rightarrow> real list" where
  "reals_of xs = List.map_filter (\<lambda>x. case x of Fin a \<Rightarrow> Some a | _ \<Rightarrow> None) xs"

text \<open>\<^verbatim>\<open>Series.cumprod\<close> and \<^verbatim>\<open>Series.expanding().max()\<close>.\<close>

fun cumprod_acc :: "real \<Rightarrow> real list \<Rightarrow> real list" where
  "cumprod_acc acc [] = []"
| "cumprod_acc acc (x # xs) = (acc * x) # cumprod_acc (acc * x) xs"

definition cumprod :: "real list \<Rightarrow> real list" where
  "cumprod xs = cumprod_acc 1 xs"

fun expanding_max_acc :: "real \<Rightarrow> real list \<Rightarrow> real list" where
  "expanding_max_acc m [] = []"
| "expanding_max_acc m (x # xs) = max m x # expanding_max_acc (max m x) xs"

fun expanding_max :: "real list \<Rightarrow> real list" where
  "expanding_max [] = []"
| "expanding_max (x # xs) = x # expanding_max_acc x xs"

text \<open>\<^verbatim>\<open>Series.min\<close> skips NaN; it is NaN when nothing else is left.\<close>

definition fl_min2 :: "fl \<Rightarrow> fl \<Rightarrow> fl" where
  "fl_min2 a b = (if fl_less b a then b else a)"

definition series_min :: "fl list \<Rightarrow> fl" where
  "series_min xs =
     (case filter (\<lambda>x. \<not> isnan x) xs of [] \<Rightarrow> NaN | y # ys \<Rightarrow> fold fl_min2 ys y)"

text \<open>
  \<^verbatim>\<open>Series.skew\<close> and \<^verbatim>\<open>Series.kurtosis\<close> (pandas' \<^verbatim>\<open>nanskew\<close> and
  \<^verbatim>\<open>nankurt\<close>): the bias-corrected sample skewness and excess kurtosis. They are NaN
  below three and four observations, and 0 when the sum of squared deviations is zero;
  sums below \<open>10\<^sup>-\<^sup>1\<^sup>4\<close> in absolute value are taken as zero. The power
  \<^verbatim>\<open>m2 ** 1.5\<close> of the positive sum \<open>m2\<close> is written \<open>m2 * sqrt m2\<close>.
\<close>

definition zero_out_fperr :: "real \<Rightarrow> real" where
  "zero_out_fperr x = (if \<bar>x\<bar> < 1 / 10 ^ 14 then 0 else x)"

definition nanskew :: "real list \<Rightarrow> fl" where
  "nanskew xs =
     (let count = real (length xs);
          adjusted = map (\<lambda>x. x - mean xs) xs;
          m2 = zero_out_fperr (sum_list (map (\<lambda>a. a\<^sup>2) adjusted));
          m3 = zero_out_fperr (sum_list (map (\<lambda>a. a ^ 3) adjusted))
      in if length xs < 3 then NaN
         else if m2 = 0 then Fin 0
         else Fin ((count * sqrt (count - 1) / (count - 2)) * (m3 / (m2 * sqrt m2))))"

definition nankurt :: "real list \<Rightarrow> fl" where
  "nankurt xs =
     (let count = real (length xs);
          adjusted = map (\<lambda>x. x - mean xs) xs;
          m2 = sum_list (map (\<lambda>a. a\<^sup>2) adjusted);
          m4 = sum_list (map (\<lambda>a. a ^ 4) adjusted);
          adj = 3 * (count - 1)\<^sup>2 / ((count - 2) * (count - 3));
          numerator = zero_out_fperr (count * (count + 1) * (count - 1) * m4);
          denominator = zero_out_fperr ((count - 2) * (count - 3) * m2\<^sup>2)
      in if length xs < 4 then NaN
         else if denominator = 0 then Fin 0
         else Fin (numerator / denominator - adj))"

section \<open>The risk-metrics calculator\<close>

text \<open>The record of the three places that return all zeros.\<close>

definition zero_metrics :: "string \<Rightarrow> RiskMetrics" where
  "zero_metrics pid =
     \<lparr>portfolio_id = pid, value_at_risk = Fin 0, conditional_var = Fin 0,
      max_drawdown = Fin 0, sharpe_ratio = Fin 0, sortino_ratio = Fin 0,
      volatility = Fin 0, skewness = Fin 0, kurtosis = Fin 0\<rparr>"

text \<open>
  \<^verbatim>\<open>
  df = pd.DataFrame(historical_data)
  df['returns'] = df['value'].pct_change().dropna()
  returns = df['returns'].values
  returns = returns[~(np.isnan(returns) | np.isinf(returns))]
  \<close>
\<close>

definition returns_column :: "hist_point list \<Rightarrow> fl list" where
  "returns_column historical_data =
     assign_column (length historical_data) (dropna (pct_change (map val historical_data)))"

definition return_series :: "hist_point list \<Rightarrow> real list" where
  "return_series historical_data = reals_of (mask_finite (returns_column historical_data))"

text \<open>The local \<^verbatim>\<open>risk_free_rate = 0.02\<close> of the function body.\<close>

definition risk_free_rate :: real where
  "risk_free_rate = 2 / 100"

text \<open>
  The statistics of the normal path, one definition for each local variable of the
  source, in its order.
\<close>

definition calc_volatility :: "real list \<Rightarrow> fl" where
  "calc_volatility returns = safe_float (fl_mul (np_std returns) (Fin (sqrt 252))) (Fin 0)"

definition calc_mean_return :: "real list \<Rightarrow> fl" where
  "calc_mean_return returns = safe_float (fl_mul (np_mean returns) (Fin 252)) (Fin 0)"

definition calc_var_95 :: "Portfolio \<Rightarrow> real list \<Rightarrow> fl" where
  "calc_var_95 portfolio returns =
     safe_float (fl_mul (np_percentile returns 5) (Fin (total_value_usd portfolio))) (Fin 0)"

definition cvar_returns :: "real list \<Rightarrow> real list" where
  "cvar_returns returns = filter (\<lambda>r. fl_le (Fin r) (np_percentile returns 5)) returns"

definition calc_cvar_95 :: "Portfolio \<Rightarrow> real list \<Rightarrow> fl" where
  "calc_cvar_95 portfolio returns =
     safe_float
       (if 0 < length (cvar_returns returns)
        then fl_mul (np_mean (cvar_returns returns)) (Fin (total_value_usd portfolio))
        else Fin 0)
       (Fin 0)"

definition drawdown :: "real list \<Rightarrow> fl list" where
  "drawdown returns =
     (let cumulative_returns = cumprod (map (\<lambda>r. 1 + r) returns);
          running_max = expanding_max cumulative_returns
      in map (\<lambda>(c, m). fl_div (Fin (c - m)) (Fin m)) (zip cumulative_returns running_max))"

definition calc_max_drawdown :: "real list \<Rightarrow> fl" where
  "calc_max_drawdown returns = safe_float (series_min (drawdown returns)) (Fin 0)"

definition ratio_or_zero :: "fl \<Rightarrow> fl \<Rightarrow> py_exception + fl" where
  "ratio_or_zero mean_return vol =
     (if fl_less (Fin 0) vol
      then py_truediv (fl_sub mean_return (Fin risk_free_rate)) vol
      else Inr (Fin 0))"

definition calc_sharpe_ratio :: "real list \<Rightarrow> py_exception + fl" where
  "calc_sharpe_ratio returns =
     bind_exc (ratio_or_zero (calc_mean_return returns) (calc_volatility returns))
       (\<lambda>x. Inr (safe_float x (Fin 0)))"

definition downside_returns :: "real list \<Rightarrow> real list" where
  "downside_returns returns = filter (\<lambda>r. r < 0) returns"

definition calc_downside_volatility :: "real list \<Rightarrow> fl" where
  "calc_downside_volatility returns =
     safe_float
       (if 0 < length (downside_returns returns)
        then fl_mul (np_std (downside_returns returns)) (Fin (sqrt 252))
        else Fin 0)
       (Fin 0)"

definition calc_sortino_ratio :: "real list \<Rightarrow> py_exception + fl" where
  "calc_sortino_ratio returns =
     bind_exc (ratio_or_zero (calc_mean_return returns) (calc_downside_volatility returns))
       (\<lambda>x. Inr (safe_float x (Fin 0)))"

definition calc_skewness :: "real list \<Rightarrow> fl" where
  "calc_skewness returns = safe_float (nanskew returns) (Fin 0)"

definition calc_kurtosis :: "real list \<Rightarrow> fl" where
  "calc_kurtosis returns = safe_float (nankurt returns) (Fin 0)"

text \<open>The body of the \<^verbatim>\<open>try\<close> block: it returns a record or raises.\<close>

definition metrics_body :: "Portfolio \<Rightarrow> hist_point list \<Rightarrow> py_exception + RiskMetrics" where
  "metrics_body portfolio historical_data =
     (if historical_data = [] then Inr (zero_metrics (ident portfolio))
      else let returns = return_series historical_data
           in if length returns < 2 then Inr (zero_metrics (ident portfolio))
              else bind_exc (calc_sharpe_ratio returns) (\<lambda>sharpe.
                   bind_exc (calc_sortino_ratio returns) (\<lambda>sortino.
                   Inr \<lparr>portfolio_id = ident portfolio,
                        value_at_risk = fl_abs (calc_var_95 portfolio returns),
                        conditional_var = fl_abs (calc_cvar_95 portfolio returns),
                        max_drawdown = fl_abs (calc_max_drawdown returns),
                        sharpe_ratio = sharpe,
                        sortino_ratio = sortino,
                        volatility = calc_volatility returns,
                        skewness = calc_skewness returns,
                        kurtosis = calc_kurtosis returns\<rparr>)))"

text \<open>
  The whole function: \<^verbatim>\<open>except Exception\<close> turns whatever the body raises into the
  all-zero record.
\<close>

definition calculate_portfolio_metrics ::
    "Portfolio \<Rightarrow> hist_point list \<Rightarrow> py_exception + RiskMetrics" where
  "calculate_portfolio_metrics portfolio historical_data =
     (case metrics_body portfolio historical_data of
        Inl e \<Rightarrow> Inr (zero_metrics (ident portfolio))
      | Inr r \<Rightarrow> Inr r)"

section \<open>Rounded arithmetic\<close>

text \<open>
  The double nearest to a real number: round to nearest, ties to even, with a
  significand of 53 bits. The exponent range is unbounded here (no overflow, no
  subnormal numbers). Every IEEE operation of the code below is the exact operation
  followed by this rounding.
\<close>

definition round_half_even :: "real \<Rightarrow> int" where
  "round_half_even y =
     (let f = \<lfloor>y\<rfloor>; d = y - of_int f
      in if d < 1 / 2 then f else if 1 / 2 < d then f + 1 else if even f then f else f + 1)"

definition fl64 :: "real \<Rightarrow> real" where
  "fl64 x =
     (if x = 0 then 0
      else let u = 2 powi (\<lfloor>log 2 \<bar>x\<bar>\<rfloor> - 52)
           in of_int (round_half_even (x / u)) * u)"

fun fl_round :: "fl \<Rightarrow> fl" where
  "fl_round (Fin a) = Fin (fl64 a)"
| "fl_round x = x"

text \<open>
  The return series, the volatility and the Sharpe ratio of the calculator once more
  (source lines 393 to 397, 413, 414 and 430 to 432), with every arithmetic operation
  rounded. The valuations are taken to be doubles. \<^verbatim>\<open>pct_change\<close> divides and
  subtracts 1.
\<close>

fun pct_pairs_f64 :: "real \<Rightarrow> real list \<Rightarrow> fl list" where
  "pct_pairs_f64 prev [] = []"
| "pct_pairs_f64 prev (v # vs) =
     fl_round (fl_sub (fl_round (fl_div (Fin v) (Fin prev))) (Fin 1)) # pct_pairs_f64 v vs"

fun pct_change_f64 :: "real list \<Rightarrow> fl list" where
  "pct_change_f64 [] = []"
| "pct_change_f64 (v # vs) = NaN # pct_pairs_f64 v vs"

definition return_series_f64 :: "hist_point list \<Rightarrow> real list" where
  "return_series_f64 historical_data =
     reals_of (mask_finite (assign_column (length historical_data)
       (dropna (pct_change_f64 (map val historical_data)))))"

text \<open>
  The sum of an array, added up in order from zero: this is how numpy sums an array of
  fewer than eight elements (longer arrays are summed pairwise in blocks, which is not
  modelled). \<^verbatim>\<open>np.mean\<close> divides the sum by the length; \<^verbatim>\<open>np.std\<close> subtracts
  the mean, squares, sums, divides by the length and takes the square root.
\<close>

definition np_sum_f64 :: "real list \<Rightarrow> real" where
  "np_sum_f64 xs = foldl (\<lambda>acc x. fl64 (acc + x)) 0 xs"

definition np_mean_f64 :: "real list \<Rightarrow> fl" where
  "np_mean_f64 xs = (if xs = [] then NaN else Fin (fl64 (np_sum_f64 xs / real (length xs))))"

definition np_std_f64 :: "real list \<Rightarrow> fl" where
  "np_std_f64 xs =
     (if xs = [] then NaN
      else let arrmean = fl64 (np_sum_f64 xs / real (length xs));
               x = map (\<lambda>a. fl64 (a - arrmean)) xs;
               x2 = map (\<lambda>d. fl64 (d * d)) x;
               ret = fl64 (np_sum_f64 x2 / real (length xs))
           in Fin (fl64 (sqrt ret)))"

definition calc_volatility_f64 :: "real list \<Rightarrow> fl" where
  "calc_volatility_f64 returns =
     safe_float (fl_round (fl_mul (np_std_f64 returns) (Fin (fl64 (sqrt 252))))) (Fin 0)"

definition calc_mean_return_f64 :: "real list \<Rightarrow> fl" where
  "calc_mean_return_f64 returns =
     safe_float (fl_round (fl_mul (np_mean_f64 returns) (Fin 252))) (Fin 0)"

definition ratio_or_zero_f64 :: "fl \<Rightarrow> fl \<Rightarrow> py_exception + fl" where
  "ratio_or_zero_f64 mean_return vol =
     (if fl_less (Fin 0) vol
      then bind_exc (py_truediv (fl_round (fl_sub mean_return (Fin (fl64 risk_free_rate)))) vol)
             (\<lambda>q. Inr (fl_round q))
      else Inr (Fin 0))"

definition calc_sharpe_ratio_f64 :: "real list \<Rightarrow> py_exception + fl" where
  "calc_sharpe_ratio_f64 returns =
     bind_exc (ratio_or_zero_f64 (calc_mean_return_f64 returns) (calc_volatility_f64 returns))
       (\<lambda>x. Inr (safe_float x (Fin 0)))"

section \<open>Notions of the specification\<close>

text \<open>
  The simple return of one period and the raw return sequence of a valuation series,
  \<open>r\<^sub>i = v\<^sub>i / v\<^sub>i\<^sub>-\<^sub>1 - 1\<close> for \<open>i = 1, \<dots>, n - 1\<close>, as the specification words
  them.
\<close>

definition simple_return :: "real \<Rightarrow> real \<Rightarrow> fl" where
  "simple_return prev v = fl_sub (fl_div (Fin v) (Fin prev)) (Fin 1)"

definition raw_returns :: "real list \<Rightarrow> fl list" where
  "raw_returns vs = map (\<lambda>i. simple_return (vs ! (i - 1)) (vs ! i)) [1..<length vs]"

text \<open>Every numeric field of a record is finite.\<close>

definition fields_finite :: "RiskMetrics \<Rightarrow> bool" where
  "fields_finite r =
     (isfinite (value_at_risk r) \<and> isfinite (conditional_var r) \<and> isfinite (max_drawdown r)
      \<and> isfinite (sharpe_ratio r) \<and> isfinite (sortino_ratio r) \<and> isfinite (volatility r)
      \<and> isfinite (skewness r) \<and> isfinite (kurtosis r))"

text \<open>
  The sample standard deviation in the usual sense of the term: divisor \<open>n - 1\<close>
  (Bessel's correction), as opposed to the divisor \<open>n\<close> of \<open>np_std\<close>.
\<close>

definition sample_std :: "real list \<Rightarrow> real" where
  "sample_std xs = sqrt (sum_list (map (\<lambda>x. (x - mean xs)\<^sup>2) xs) / (real (length xs) - 1))"

text \<open>
  The Sharpe ratio of the specification's interface, where the risk-free rate is an
  argument: annualized mean minus the rate, over the annualized volatility.
\<close>

definition sharpe_with_rate :: "real \<Rightarrow> real list \<Rightarrow> real" where
  "sharpe_with_rate rate xs = (mean xs * 252 - rate) / (sqrt (pvariance xs) * sqrt 252)"

section \<open>Example inputs\<close>

definition p_example :: Portfolio where
  "p_example = \<lparr>ident = ''portfolio-1'', total_value_usd = 1010\<rparr>"

text \<open>Valuations 100, 0, 50: one return is \<open>-1\<close>, the other divides by zero.\<close>

definition h_zero :: "hist_point list" where
  "h_zero = [\<lparr>date = 0, val = 100\<rparr>, \<lparr>date = 1, val = 0\<rparr>, \<lparr>date = 2, val = 50\<rparr>]"

text \<open>
  Valuations 100, 0, 50, 100, 50: the return over the zero valuation is infinite, the
  other three are \<open>-1\<close>, 1 and \<open>-1/2\<close>.
\<close>

definition h_gap :: "hist_point list" where
  "h_gap = [\<lparr>date = 0, val = 100\<rparr>, \<lparr>date = 1, val = 0\<rparr>, \<lparr>date = 2, val = 50\<rparr>,
     \<lparr>date = 3, val = 100\<rparr>, \<lparr>date = 4, val = 50\<rparr>]"

text \<open>Valuations 1, 1, 3: the returns are 0 and 2.\<close>

definition h_two_returns :: "hist_point list" where
  "h_two_returns = [\<lparr>date = 0, val = 1\<rparr>, \<lparr>date = 1, val = 1\<rparr>, \<lparr>date = 2, val = 3\<rparr>]"

text \<open>
  Valuations 27, 63, 147, 343: every quotient is \<open>7/3\<close>, so the three returns are one
  and the same double, \<open>r_residue\<close>.
\<close>

definition h_residue :: "hist_point list" where
  "h_residue = [\<lparr>date = 0, val = 27\<rparr>, \<lparr>date = 1, val = 63\<rparr>, \<lparr>date = 2, val = 147\<rparr>,
     \<lparr>date = 3, val = 343\<rparr>]"

definition r_residue :: real where
  "r_residue = 3002399751580331 / 2251799813685248"

text \<open>The series of the specification's end-to-end scenario.\<close>

definition h_spec_example :: "hist_point list" where
  "h_spec_example =
     [\<lparr>date = 0, val = 1000\<rparr>, \<lparr>date = 1, val = 1020\<rparr>, \<lparr>date = 2, val = 998\<rparr>,
      \<lparr>date = 3, val = 1050\<rparr>, \<lparr>date = 4, val = 1010\<rparr>]"

section \<open>Properties of the numeric safety layer\<close>

lemma isfinite_safe_float: "isfinite (safe_float x (Fin d))"
  by (cases x) (simp_all add: safe_float_def)

lemma safe_float_Fin: "safe_float (Fin a) d = Fin a"
  by (simp add: safe_float_def)

lemma safe_float_twice: "safe_float (safe_float x d) d = safe_float x d"
  by (simp add: safe_float_def)

lemma clean_data_for_json_twice:
  "clean_data_for_json (clean_data_for_json d) = clean_data_for_json d"
proof (induction d rule: clean_data_for_json.induct)
  case (1 kvs)
  have "(key, v) \<in> set kvs \<Longrightarrow>
      clean_data_for_json (clean_data_for_json v) = clean_data_for_json v" for key v
    using "1.IH" by blast
  then show ?case by (auto simp: comp_def case_prod_beta)
next
  case (2 xs)
  then show ?case by simp
next
  case (3 x)
  then show ?case by (simp add: safe_float_twice)
qed simp_all

text \<open>
  Claim C9, as the code has it. The scalar operation \<open>safe_float\<close> is idempotent for
  every default, keeps a finite float and replaces NaN and the infinities by the default;
  the recursive operation \<open>clean_data_for_json\<close> takes no default (it
  always uses 0.0), is idempotent, leaves finite floats, strings, integers, booleans and
  \<open>None\<close> unchanged, replaces a NaN or infinite float by 0.0, recurses through every
  value of a dictionary and every element of a list, and turns a missing-value scalar
  that is not a float (\<open>pd.NaT\<close>) into \<open>None\<close>.
\<close>

theorem sanitize_idempotent_and_structural:
  "safe_float (safe_float x d) d = safe_float x d
   \<and> clean_data_for_json (clean_data_for_json v) = clean_data_for_json v
   \<and> safe_float (Fin a) d = Fin a
   \<and> safe_float NaN d = d \<and> safe_float PInf d = d \<and> safe_float NInf d = d
   \<and> clean_data_for_json (PyFloat (Fin a)) = PyFloat (Fin a)
   \<and> clean_data_for_json (PyFloat NaN) = PyFloat (Fin 0)
   \<and> clean_data_for_json (PyFloat PInf) = PyFloat (Fin 0)
   \<and> clean_data_for_json (PyFloat NInf) = PyFloat (Fin 0)
   \<and> clean_data_for_json (PyStr s) = PyStr s
   \<and> clean_data_for_json (PyInt i) = PyInt i
   \<and> clean_data_for_json (PyBool b) = PyBool b
   \<and> clean_data_for_json PyNone = PyNone
   \<and> clean_data_for_json PyNaT = PyNone
   \<and> clean_data_for_json (PyList xs) = PyList (map clean_data_for_json xs)
   \<and> clean_data_for_json (PyDict kvs) =
       PyDict (map (\<lambda>(key, w). (key, clean_data_for_json w)) kvs)"
  by (simp add: safe_float_twice clean_data_for_json_twice safe_float_def)

text \<open>
  Claim C9 as stated fails: \<open>pd.NaT\<close> is a scalar that is not a number, and the
  fourth branch of \<open>clean_data_for_json\<close> replaces it by \<open>None\<close>.
\<close>

theorem sanitize_not_identity_on_NaT:
  "non_numeric_scalar PyNaT \<and> clean_data_for_json PyNaT \<noteq> PyNaT"
  by simp

section \<open>The return series\<close>

lemma map_of_dropna:
  "i < length xs \<Longrightarrow> map_of (dropna xs) i = (if isnan (xs ! i) then None else Some (xs ! i))"
proof -
  assume i: "i < length xs"
  have d: "distinct (map fst (enumerate 0 xs))" by (simp add: enumerate_eq_zip)
  have m: "map_of (enumerate 0 xs) i = Some (xs ! i)"
    using map_of_zip_nth[of "[0..<length xs]" xs i] i by (simp add: enumerate_eq_zip)
  show ?thesis
  proof (cases "isnan (xs ! i)")
    case True
    have "(i, x) \<notin> set (dropna xs)" for x
      using True i by (auto simp: dropna_def in_set_enumerate_eq)
    then have "map_of (dropna xs) i = None"
      by (meson map_of_SomeD not_Some_eq)
    then show ?thesis using True by simp
  next
    case False
    have "map_of (filter (\<lambda>(i, x). \<not> isnan x) (enumerate 0 xs)) i = Some (xs ! i)"
      by (rule map_of_filter_in[OF m]) (use False in simp)
    then show ?thesis using False by (simp add: dropna_def)
  qed
qed

lemma isnan_eq: "isnan x \<longleftrightarrow> x = NaN"
  by (cases x) simp_all

lemma assign_dropna: "assign_column (length xs) (dropna xs) = xs"
  by (rule nth_equalityI) (simp_all add: assign_column_def map_of_dropna isnan_eq)


lemma reals_of_mask_finite: "reals_of (mask_finite xs) = reals_of xs"
  by (induction xs) (auto simp: reals_of_def mask_finite_def List.map_filter_simps split: fl.splits)

lemma map_Fin_reals_of: "map Fin (reals_of xs) = mask_finite xs"
proof (induction xs)
  case Nil
  show ?case by (simp add: reals_of_def mask_finite_def List.map_filter_simps)
next
  case (Cons x xs)
  then show ?case
    by (cases x) (simp_all add: reals_of_def mask_finite_def List.map_filter_simps)
qed

lemma length_reals_of:
  "length (reals_of xs) + length (filter (\<lambda>x. isnan x \<or> isinf x) xs) = length xs"
proof (induction xs)
  case Nil
  show ?case by (simp add: reals_of_def List.map_filter_simps)
next
  case (Cons x xs)
  then show ?case
    by (cases x) (simp_all add: reals_of_def List.map_filter_simps)
qed

lemma pct_pairs_nth:
  "pct_pairs prev vs = map (\<lambda>i. simple_return ((prev # vs) ! i) ((prev # vs) ! Suc i)) [0..<length vs]"
proof (induction vs arbitrary: prev)
  case Nil
  show ?case by simp
next
  case (Cons v vs)
  have "[0..<length (v # vs)] = 0 # map Suc [0..<length vs]"
    by (simp add: upt_conv_Cons map_Suc_upt del: upt_Suc)
  then show ?case
    by (simp add: Cons.IH simple_return_def comp_def del: upt_Suc)
qed

lemma pct_change_raw: "pct_change (v # vs) = NaN # raw_returns (v # vs)"
proof -
  have "[1..<length (v # vs)] = map Suc [0..<length vs]"
    by (simp add: map_Suc_upt)
  then show ?thesis
    by (simp add: raw_returns_def pct_pairs_nth comp_def del: upt_Suc)
qed

lemma return_series_raw: "return_series h = reals_of (raw_returns (map val h))"
proof (cases h)
  case Nil
  then show ?thesis
    by (simp add: return_series_def returns_column_def assign_column_def raw_returns_def
        reals_of_def mask_finite_def List.map_filter_simps)
next
  case (Cons p ps)
  have len: "length (pct_change (map val h)) = length h"
    using Cons by (simp add: pct_pairs_nth)
  have "returns_column h = pct_change (map val h)"
    using assign_dropna[of "pct_change (map val h)"] len
    by (simp add: returns_column_def)
  moreover have "pct_change (map val h) = NaN # raw_returns (map val h)"
    using Cons by (simp add: pct_change_raw del: pct_change.simps)
  ultimately have "return_series h = reals_of (NaN # raw_returns (map val h))"
    by (simp add: return_series_def reals_of_mask_finite)
  then show ?thesis
    by (simp add: reals_of_def List.map_filter_simps)
qed

lemma length_raw_returns: "length (raw_returns vs) = length vs - 1"
  by (simp add: raw_returns_def)

section \<open>The calculator returns a record\<close>

lemma isfinite_abs_safe_float: "isfinite (fl_abs (safe_float x (Fin d)))"
  by (cases x) (simp_all add: safe_float_def)

lemma ratio_or_zero_Inr:
  "ratio_or_zero m v =
     Inr (if fl_less (Fin 0) v then fl_div (fl_sub m (Fin risk_free_rate)) v else Fin 0)"
  by (cases v) (auto simp: ratio_or_zero_def py_truediv_def)

lemma calc_sharpe_ratio_Inr:
  "calc_sharpe_ratio rs =
     Inr (safe_float (if fl_less (Fin 0) (calc_volatility rs)
                      then fl_div (fl_sub (calc_mean_return rs) (Fin risk_free_rate)) (calc_volatility rs)
                      else Fin 0) (Fin 0))"
  by (simp add: calc_sharpe_ratio_def ratio_or_zero_Inr bind_exc_def)

lemma calc_sortino_ratio_Inr:
  "calc_sortino_ratio rs =
     Inr (safe_float (if fl_less (Fin 0) (calc_downside_volatility rs)
                      then fl_div (fl_sub (calc_mean_return rs) (Fin risk_free_rate))
                             (calc_downside_volatility rs)
                      else Fin 0) (Fin 0))"
  by (simp add: calc_sortino_ratio_def ratio_or_zero_Inr bind_exc_def)

lemma return_series_Nil: "return_series [] = []"
  by (simp add: return_series_raw raw_returns_def reals_of_def List.map_filter_simps)

lemma metrics_body_degenerate:
  "length (return_series h) < 2 \<Longrightarrow> metrics_body p h = Inr (zero_metrics (ident p))"
  by (simp add: metrics_body_def Let_def)

lemma metrics_body_normal:
  assumes "2 \<le> length (return_series h)"
  shows "\<exists>sh so. calc_sharpe_ratio (return_series h) = Inr sh
           \<and> calc_sortino_ratio (return_series h) = Inr so
           \<and> metrics_body p h =
               Inr \<lparr>portfolio_id = ident p,
                    value_at_risk = fl_abs (calc_var_95 p (return_series h)),
                    conditional_var = fl_abs (calc_cvar_95 p (return_series h)),
                    max_drawdown = fl_abs (calc_max_drawdown (return_series h)),
                    sharpe_ratio = sh,
                    sortino_ratio = so,
                    volatility = calc_volatility (return_series h),
                    skewness = calc_skewness (return_series h),
                    kurtosis = calc_kurtosis (return_series h)\<rparr>"
proof -
  have ne: "h \<noteq> []" using assms return_series_Nil by auto
  show ?thesis
    using assms ne
    by (simp add: metrics_body_def Let_def calc_sharpe_ratio_Inr calc_sortino_ratio_Inr bind_exc_def)
qed

lemma calculate_eq_body:
  "metrics_body p h = Inr r \<Longrightarrow> calculate_portfolio_metrics p h = Inr r"
  by (simp add: calculate_portfolio_metrics_def)

lemma metrics_body_never_raises: "\<exists>r. metrics_body p h = Inr r"
proof (cases "length (return_series h) < 2")
  case True
  then show ?thesis by (simp add: metrics_body_degenerate)
next
  case False
  then have "2 \<le> length (return_series h)" by simp
  from metrics_body_normal[OF this, of p] show ?thesis by blast
qed

lemma calculate_normal:
  assumes "2 \<le> length (return_series h)"
  shows "\<exists>sh so. calc_sharpe_ratio (return_series h) = Inr sh
           \<and> calc_sortino_ratio (return_series h) = Inr so
           \<and> calculate_portfolio_metrics p h =
               Inr \<lparr>portfolio_id = ident p,
                    value_at_risk = fl_abs (calc_var_95 p (return_series h)),
                    conditional_var = fl_abs (calc_cvar_95 p (return_series h)),
                    max_drawdown = fl_abs (calc_max_drawdown (return_series h)),
                    sharpe_ratio = sh,
                    sortino_ratio = so,
                    volatility = calc_volatility (return_series h),
                    skewness = calc_skewness (return_series h),
                    kurtosis = calc_kurtosis (return_series h)\<rparr>"
  using metrics_body_normal[OF assms, of p] calculate_eq_body by blast

lemma calculate_degenerate:
  "length (return_series h) < 2 \<Longrightarrow>
     calculate_portfolio_metrics p h = Inr (zero_metrics (ident p))"
  by (simp add: metrics_body_degenerate calculate_eq_body)

lemma length_return_series_le: "length (return_series h) \<le> length h - 1"
  using length_reals_of[of "raw_returns (map val h)"]
  by (simp add: return_series_raw length_raw_returns)

text \<open>
  Claim C3. The return series of a valuation series is the sequence of simple returns
  \<open>v\<^sub>i / v\<^sub>i\<^sub>-\<^sub>1 - 1\<close> of its consecutive pairs, in order, without those that are NaN
  or infinite: the finite ones are kept unchanged, none is replaced, the first valuation
  contributes no return, and the length is \<open>n - 1\<close> minus the number of non-finite
  returns. With at least two returns left, every statistic of the record is computed
  from that series.
\<close>

theorem return_series_simple_returns:
  "return_series h = reals_of (raw_returns (map val h))
   \<and> map Fin (return_series h) =
       filter (\<lambda>x. \<not> (isnan x \<or> isinf x)) (raw_returns (map val h))
   \<and> length (raw_returns (map val h)) = length h - 1
   \<and> length (return_series h) =
       (length h - 1) - length (filter (\<lambda>x. isnan x \<or> isinf x) (raw_returns (map val h)))
   \<and> (2 \<le> length (return_series h) \<longrightarrow>
        (\<exists>r. calculate_portfolio_metrics p h = Inr r
           \<and> value_at_risk r = fl_abs (calc_var_95 p (return_series h))
           \<and> conditional_var r = fl_abs (calc_cvar_95 p (return_series h))
           \<and> max_drawdown r = fl_abs (calc_max_drawdown (return_series h))
           \<and> calc_sharpe_ratio (return_series h) = Inr (sharpe_ratio r)
           \<and> calc_sortino_ratio (return_series h) = Inr (sortino_ratio r)
           \<and> volatility r = calc_volatility (return_series h)
           \<and> skewness r = calc_skewness (return_series h)
           \<and> kurtosis r = calc_kurtosis (return_series h)))"
proof -
  have a: "return_series h = reals_of (raw_returns (map val h))"
    by (rule return_series_raw)
  have b: "map Fin (return_series h) =
      filter (\<lambda>x. \<not> (isnan x \<or> isinf x)) (raw_returns (map val h))"
    unfolding a map_Fin_reals_of by (simp add: mask_finite_def)
  have c: "length (raw_returns (map val h)) = length h - 1"
    by (simp add: length_raw_returns)
  have d: "length (return_series h) =
      (length h - 1) - length (filter (\<lambda>x. isnan x \<or> isinf x) (raw_returns (map val h)))"
    using length_reals_of[of "raw_returns (map val h)"] unfolding a c by linarith
  have e: "\<exists>r. calculate_portfolio_metrics p h = Inr r
           \<and> value_at_risk r = fl_abs (calc_var_95 p (return_series h))
           \<and> conditional_var r = fl_abs (calc_cvar_95 p (return_series h))
           \<and> max_drawdown r = fl_abs (calc_max_drawdown (return_series h))
           \<and> calc_sharpe_ratio (return_series h) = Inr (sharpe_ratio r)
           \<and> calc_sortino_ratio (return_series h) = Inr (sortino_ratio r)
           \<and> volatility r = calc_volatility (return_series h)
           \<and> skewness r = calc_skewness (return_series h)
           \<and> kurtosis r = calc_kurtosis (return_series h)"
    if "2 \<le> length (return_series h)"
    using calculate_normal[OF that, of p] by force
  show ?thesis using a b c d e by blast
qed

lemma return_series_h_gap: "return_series h_gap = [- 1, 1, - (1 / 2)]"
  unfolding h_gap_def by code_simp

theorem return_series_simple_returns_witness:
  "return_series h_gap = [- 1, 1, - (1 / 2)]
   \<and> length h_gap = 5
   \<and> length (filter (\<lambda>x. isnan x \<or> isinf x) (raw_returns (map val h_gap))) = 1
   \<and> (\<exists>r. calculate_portfolio_metrics p_example h_gap = Inr r
          \<and> volatility r = calc_volatility [- 1, 1, - (1 / 2)]
          \<and> skewness r = calc_skewness [- 1, 1, - (1 / 2)])"
proof -
  have rs: "return_series h_gap = [- 1, 1, - (1 / 2)]"
    by (rule return_series_h_gap)
  have len: "length h_gap = 5"
    by (simp add: h_gap_def)
  have two: "2 \<le> length (return_series h_gap)"
    by (simp add: rs)
  from return_series_simple_returns[of h_gap p_example] two rs len
  show ?thesis by auto
qed

text \<open>
  Claim C4. The calculator never raises: the body of its \<open>try\<close> block returns a
  record on every input (the two Python divisions are reached only with a positive
  divisor), and so does the function itself.
\<close>

theorem calculator_never_raises:
  "(\<exists>r. metrics_body p h = Inr r) \<and> (\<exists>r. calculate_portfolio_metrics p h = Inr r)"
  using metrics_body_never_raises[of p h] calculate_eq_body by blast

lemma fields_finite_zero: "fields_finite (zero_metrics pid)"
  by (simp add: fields_finite_def zero_metrics_def)

text \<open>
  Claim C1. For every portfolio and every valuation series, the calculator returns a
  record whose eight numeric fields are all finite.
\<close>

theorem metrics_fields_finite:
  "\<exists>r. calculate_portfolio_metrics p h = Inr r \<and> fields_finite r"
proof (cases "length (return_series h) < 2")
  case True
  then have "calculate_portfolio_metrics p h = Inr (zero_metrics (ident p))"
    by (rule calculate_degenerate)
  then show ?thesis using fields_finite_zero by blast
next
  case False
  then have two: "2 \<le> length (return_series h)" by simp
  from metrics_body_normal[OF two, of p] obtain sh so r where
    sh: "calc_sharpe_ratio (return_series h) = Inr sh" and
    so: "calc_sortino_ratio (return_series h) = Inr so" and
    b: "metrics_body p h = Inr r" and
    r: "r = \<lparr>portfolio_id = ident p,
              value_at_risk = fl_abs (calc_var_95 p (return_series h)),
              conditional_var = fl_abs (calc_cvar_95 p (return_series h)),
              max_drawdown = fl_abs (calc_max_drawdown (return_series h)),
              sharpe_ratio = sh,
              sortino_ratio = so,
              volatility = calc_volatility (return_series h),
              skewness = calc_skewness (return_series h),
              kurtosis = calc_kurtosis (return_series h)\<rparr>"
    by blast
  have "isfinite sh" using sh by (auto simp: calc_sharpe_ratio_Inr isfinite_safe_float)
  moreover have "isfinite so" using so by (auto simp: calc_sortino_ratio_Inr isfinite_safe_float)
  ultimately have "fields_finite r"
    unfolding r fields_finite_def
    by (simp add: calc_var_95_def calc_cvar_95_def calc_max_drawdown_def calc_volatility_def
        calc_skewness_def calc_kurtosis_def isfinite_safe_float isfinite_abs_safe_float)
  then show ?thesis using calculate_eq_body[OF b] by blast
qed

lemma return_series_h_zero: "return_series h_zero = [- 1]"
  unfolding h_zero_def by code_simp

text \<open>
  Claim C2. When the valuation series has fewer than two points, or fewer than two of
  its returns are finite, the calculator returns the record with every numeric field
  equal to 0.0, and raises nothing.
\<close>

theorem degenerate_series_all_zero:
  "length h < 2 \<or> length (return_series h) < 2 \<Longrightarrow>
     calculate_portfolio_metrics p h = Inr (zero_metrics (ident p))
     \<and> zero_metrics (ident p) =
         \<lparr>portfolio_id = ident p, value_at_risk = Fin 0, conditional_var = Fin 0,
          max_drawdown = Fin 0, sharpe_ratio = Fin 0, sortino_ratio = Fin 0,
          volatility = Fin 0, skewness = Fin 0, kurtosis = Fin 0\<rparr>"
proof -
  assume "length h < 2 \<or> length (return_series h) < 2"
  then have "length (return_series h) < 2"
    using length_return_series_le[of h] by linarith
  then show ?thesis
    by (simp add: calculate_degenerate zero_metrics_def)
qed

theorem degenerate_series_all_zero_witness:
  "(length h_zero < 2 \<or> length (return_series h_zero) < 2)
   \<and> calculate_portfolio_metrics p_example h_zero = Inr (zero_metrics (ident p_example))"
proof -
  have less: "length h_zero < 2 \<or> length (return_series h_zero) < 2"
    by (simp add: return_series_h_zero)
  from degenerate_series_all_zero[OF less, of p_example] less show ?thesis by blast
qed

section \<open>Volatility and the ratios\<close>

lemma calc_volatility_eq:
  "rs \<noteq> [] \<Longrightarrow> calc_volatility rs = Fin (sqrt (pvariance rs) * sqrt 252)"
  by (simp add: calc_volatility_def np_std_def safe_float_def)

lemma calc_mean_return_eq:
  "rs \<noteq> [] \<Longrightarrow> calc_mean_return rs = Fin (mean rs * 252)"
  by (simp add: calc_mean_return_def np_mean_def safe_float_def)

lemma calc_sharpe_ratio_eq:
  assumes "rs \<noteq> []"
  shows "calc_sharpe_ratio rs =
     Inr (if 0 < sqrt (pvariance rs) * sqrt 252
          then Fin ((mean rs * 252 - risk_free_rate) / (sqrt (pvariance rs) * sqrt 252))
          else Fin 0)"
  using assms
  by (simp add: calc_sharpe_ratio_Inr calc_volatility_eq calc_mean_return_eq fl_sub_def
      safe_float_def)

lemma calc_downside_volatility_eq:
  "calc_downside_volatility rs =
     Fin (if downside_returns rs = [] then 0 else sqrt (pvariance (downside_returns rs)) * sqrt 252)"
  by (simp add: calc_downside_volatility_def np_std_def safe_float_def)

lemma calc_sortino_ratio_eq:
  assumes "rs \<noteq> []"
  shows "calc_sortino_ratio rs =
     Inr (let dv = (if downside_returns rs = [] then 0
                    else sqrt (pvariance (downside_returns rs)) * sqrt 252)
          in if 0 < dv then Fin ((mean rs * 252 - risk_free_rate) / dv) else Fin 0)"
  using assms
  by (simp add: calc_sortino_ratio_Inr calc_downside_volatility_eq calc_mean_return_eq fl_sub_def
      safe_float_def Let_def)

lemma volatility_normal:
  assumes "2 \<le> length (return_series h)"
  shows "\<exists>r. calculate_portfolio_metrics p h = Inr r
           \<and> volatility r = Fin (sqrt (pvariance (return_series h)) * sqrt 252)"
proof -
  have ne: "return_series h \<noteq> []" using assms by auto
  from calculate_normal[OF assms, of p] obtain r where
    "calculate_portfolio_metrics p h = Inr r" "volatility r = calc_volatility (return_series h)"
    by force
  then show ?thesis using calc_volatility_eq[OF ne] by auto
qed

lemma sharpe_normal:
  assumes "2 \<le> length (return_series h)"
  shows "\<exists>r. calculate_portfolio_metrics p h = Inr r
           \<and> volatility r = Fin (sqrt (pvariance (return_series h)) * sqrt 252)
           \<and> sharpe_ratio r =
               (if 0 < sqrt (pvariance (return_series h)) * sqrt 252
                then Fin ((mean (return_series h) * 252 - risk_free_rate)
                          / (sqrt (pvariance (return_series h)) * sqrt 252))
                else Fin 0)"
proof -
  have ne: "return_series h \<noteq> []" using assms by auto
  from calculate_normal[OF assms, of p] obtain r sh where
    r: "calculate_portfolio_metrics p h = Inr r" and
    v: "volatility r = calc_volatility (return_series h)" and
    s: "sharpe_ratio r = sh" "calc_sharpe_ratio (return_series h) = Inr sh"
    by force
  show ?thesis
    using r v s calc_volatility_eq[OF ne] calc_sharpe_ratio_eq[OF ne] by auto
qed

lemma sortino_normal:
  assumes "2 \<le> length (return_series h)"
  shows "\<exists>r. calculate_portfolio_metrics p h = Inr r
           \<and> sharpe_ratio r =
               (if 0 < sqrt (pvariance (return_series h)) * sqrt 252
                then Fin ((mean (return_series h) * 252 - risk_free_rate)
                          / (sqrt (pvariance (return_series h)) * sqrt 252))
                else Fin 0)
           \<and> sortino_ratio r =
               (let dv = (if downside_returns (return_series h) = [] then 0
                          else sqrt (pvariance (downside_returns (return_series h))) * sqrt 252)
                in if 0 < dv then Fin ((mean (return_series h) * 252 - risk_free_rate) / dv)
                   else Fin 0)"
proof -
  have ne: "return_series h \<noteq> []" using assms by auto
  from calculate_normal[OF assms, of p] obtain r sh so where
    r: "calculate_portfolio_metrics p h = Inr r" and
    s: "sharpe_ratio r = sh" "calc_sharpe_ratio (return_series h) = Inr sh" and
    t: "sortino_ratio r = so" "calc_sortino_ratio (return_series h) = Inr so"
    by force
  show ?thesis
    using r s t calc_sortino_ratio_eq[OF ne] calc_sharpe_ratio_eq[OF ne] by auto
qed

lemma return_series_h_two_returns: "return_series h_two_returns = [0, 2]"
  unfolding h_two_returns_def by code_simp

lemma length_return_series_h_spec_example: "length (return_series h_spec_example) = 4"
  unfolding h_spec_example_def by code_simp

lemma pvariance_0_2: "pvariance [0, 2] = 1"
  by (simp add: pvariance_def mean_def)

lemma mean_0_2: "mean [0, 2] = 1"
  by (simp add: mean_def)

lemma sample_std_0_2: "sample_std [0, 2] = sqrt 2"
  by (simp add: sample_std_def mean_def)

text \<open>
  Claim C6, as the code has it. For a return series of at least two observations, the
  volatility is the population standard deviation of the returns (\<open>np.std\<close> with its
  default divisor \<open>n\<close>) multiplied by \<open>sqrt 252\<close>.
\<close>

theorem volatility_population_std:
  assumes "2 \<le> length (return_series h)"
  shows "\<exists>r. calculate_portfolio_metrics p h = Inr r
           \<and> volatility r = Fin (sqrt (pvariance (return_series h)) * sqrt 252)"
  using volatility_normal[OF assms] .

theorem volatility_population_std_witness:
  "2 \<le> length (return_series h_spec_example)
   \<and> (\<exists>r. calculate_portfolio_metrics p_example h_spec_example = Inr r
           \<and> volatility r = Fin (sqrt (pvariance (return_series h_spec_example)) * sqrt 252))"
proof -
  have two: "2 \<le> length (return_series h_spec_example)"
    by (simp add: length_return_series_h_spec_example)
  from volatility_population_std[OF two, of p_example] two show ?thesis by blast
qed

text \<open>
  Claim C6 as stated fails. For the valuations 1, 1, 3 the returns are 0 and 2; their
  sample standard deviation (divisor \<open>n - 1\<close>) is \<open>sqrt 2\<close>, and the volatility of the
  record is \<open>sqrt 252\<close>, not \<open>sqrt 2 * sqrt 252\<close>.
\<close>

theorem volatility_not_sample_std:
  "2 \<le> length (return_series h_two_returns)
   \<and> \<not> isl (calculate_portfolio_metrics p_example h_two_returns)
   \<and> volatility (projr (calculate_portfolio_metrics p_example h_two_returns))
       \<noteq> Fin (sample_std (return_series h_two_returns) * sqrt 252)"
proof -
  have two: "2 \<le> length (return_series h_two_returns)"
    by (simp add: return_series_h_two_returns)
  from volatility_normal[OF two, of p_example] obtain r where
    r: "calculate_portfolio_metrics p_example h_two_returns = Inr r" and
    v: "volatility r = Fin (sqrt (pvariance (return_series h_two_returns)) * sqrt 252)"
    by blast
  have "volatility r = Fin (sqrt 252)"
    using v by (simp add: return_series_h_two_returns pvariance_0_2)
  moreover have "sample_std (return_series h_two_returns) * sqrt 252 \<noteq> sqrt 252"
    by (simp add: return_series_h_two_returns sample_std_0_2)
  ultimately show ?thesis using two r by simp
qed

text \<open>
  Claim C5, as the code has it. The calculator takes a portfolio and a valuation series
  and nothing else; the risk-free rate is the local constant \<open>risk_free_rate = 0.02\<close>
  of its body. For a return series of at least two observations, the numerators of the
  Sharpe and the Sortino ratio are the annualized mean return minus 0.02.
\<close>

theorem risk_free_rate_fixed:
  assumes "2 \<le> length (return_series h)"
  shows "\<exists>r. calculate_portfolio_metrics p h = Inr r
           \<and> sharpe_ratio r =
               (if 0 < sqrt (pvariance (return_series h)) * sqrt 252
                then Fin ((mean (return_series h) * 252 - 2 / 100)
                          / (sqrt (pvariance (return_series h)) * sqrt 252))
                else Fin 0)
           \<and> sortino_ratio r =
               (let dv = (if downside_returns (return_series h) = [] then 0
                          else sqrt (pvariance (downside_returns (return_series h))) * sqrt 252)
                in if 0 < dv then Fin ((mean (return_series h) * 252 - 2 / 100) / dv)
                   else Fin 0)"
  using sortino_normal[OF assms, of p] unfolding risk_free_rate_def .

theorem risk_free_rate_fixed_witness:
  "2 \<le> length (return_series h_spec_example)
   \<and> (\<exists>r. calculate_portfolio_metrics p_example h_spec_example = Inr r
           \<and> sharpe_ratio r =
               (if 0 < sqrt (pvariance (return_series h_spec_example)) * sqrt 252
                then Fin ((mean (return_series h_spec_example) * 252 - 2 / 100)
                          / (sqrt (pvariance (return_series h_spec_example)) * sqrt 252))
                else Fin 0))"
proof -
  have two: "2 \<le> length (return_series h_spec_example)"
    by (simp add: length_return_series_h_spec_example)
  from risk_free_rate_fixed[OF two, of p_example] two show ?thesis by blast
qed

text \<open>
  Claim C5 as stated fails. For the valuations 1, 1, 3 the Sharpe ratio of the record is
  the one for a rate of 2%; a caller who wants 5% has no argument to pass it in, and the
  ratio for 5% is a different number.
\<close>

theorem supplied_rate_not_reflected:
  "\<not> isl (calculate_portfolio_metrics p_example h_two_returns)
   \<and> sharpe_ratio (projr (calculate_portfolio_metrics p_example h_two_returns))
       = Fin (sharpe_with_rate (2 / 100) (return_series h_two_returns))
   \<and> sharpe_ratio (projr (calculate_portfolio_metrics p_example h_two_returns))
       \<noteq> Fin (sharpe_with_rate (5 / 100) (return_series h_two_returns))"
proof -
  have two: "2 \<le> length (return_series h_two_returns)"
    by (simp add: return_series_h_two_returns)
  from sharpe_normal[OF two, of p_example] obtain r where
    r: "calculate_portfolio_metrics p_example h_two_returns = Inr r" and
    s: "sharpe_ratio r =
               (if 0 < sqrt (pvariance (return_series h_two_returns)) * sqrt 252
                then Fin ((mean (return_series h_two_returns) * 252 - risk_free_rate)
                          / (sqrt (pvariance (return_series h_two_returns)) * sqrt 252))
                else Fin 0)"
    by blast
  have s': "sharpe_ratio r = Fin ((252 - 2 / 100) / sqrt 252)"
    using s by (simp add: return_series_h_two_returns pvariance_0_2 mean_0_2 risk_free_rate_def)
  have a: "sharpe_with_rate (2 / 100) (return_series h_two_returns) = (252 - 2 / 100) / sqrt 252"
    by (simp add: sharpe_with_rate_def return_series_h_two_returns pvariance_0_2 mean_0_2)
  have b: "sharpe_with_rate (5 / 100) (return_series h_two_returns) = (252 - 5 / 100) / sqrt 252"
    by (simp add: sharpe_with_rate_def return_series_h_two_returns pvariance_0_2 mean_0_2)
  have "(252 - 2 / 100) / sqrt 252 \<noteq> (252 - 5 / 100) / sqrt 252"
    by (simp add: divide_simps)
  then show ?thesis using r s' a b by simp
qed

section \<open>Conditional value at risk\<close>

lemma np_percentile_Fin: "rs \<noteq> [] \<Longrightarrow> \<exists>q. np_percentile rs 5 = Fin q"
  by (simp add: np_percentile_def Let_def)

lemma cvar_returns_Fin:
  "np_percentile rs 5 = Fin q \<Longrightarrow> cvar_returns rs = filter (\<lambda>x. x \<le> q) rs"
  by (simp add: cvar_returns_def fl_le_def not_less)

lemma calc_cvar_95_eq:
  assumes "np_percentile rs 5 = Fin q"
  shows "fl_abs (calc_cvar_95 p rs) =
     (if filter (\<lambda>x. x \<le> q) rs = [] then Fin 0
      else Fin \<bar>mean (filter (\<lambda>x. x \<le> q) rs) * total_value_usd p\<bar>)"
  by (simp add: calc_cvar_95_def cvar_returns_Fin[OF assms] np_mean_def safe_float_def)

lemma conditional_var_normal:
  assumes "2 \<le> length (return_series h)"
  shows "\<exists>r q. calculate_portfolio_metrics p h = Inr r
           \<and> np_percentile (return_series h) 5 = Fin q
           \<and> conditional_var r =
               (if filter (\<lambda>x. x \<le> q) (return_series h) = [] then Fin 0
                else Fin \<bar>mean (filter (\<lambda>x. x \<le> q) (return_series h)) * total_value_usd p\<bar>)"
proof -
  have ne: "return_series h \<noteq> []" using assms by auto
  from np_percentile_Fin[OF ne] obtain q where q: "np_percentile (return_series h) 5 = Fin q" ..
  from calculate_normal[OF assms, of p] obtain r where
    r: "calculate_portfolio_metrics p h = Inr r" and
    c: "conditional_var r = fl_abs (calc_cvar_95 p (return_series h))"
    by force
  show ?thesis using r q c calc_cvar_95_eq[OF q, of p] by auto
qed

text \<open>In exact arithmetic the interpolated percentile is never below the smallest return.\<close>

lemma percentile_ge_min:
  assumes "rs \<noteq> []" "np_percentile rs 5 = Fin q"
  shows "Min (set rs) \<le> q"
proof -
  define s where "s = sort rs"
  define n where "n = length rs"
  define pos where "pos = 5 / 100 * real (n - 1)"
  define lo where "lo = nat \<lfloor>pos\<rfloor>"
  define hi where "hi = min (lo + 1) (n - 1)"
  have n: "0 < n" using assms(1) by (simp add: n_def)
  have pos0: "0 \<le> pos" by (simp add: pos_def)
  have "pos \<le> real (n - 1)" by (simp add: pos_def)
  then have "\<lfloor>pos\<rfloor> \<le> int (n - 1)" by linarith
  then have lo: "lo \<le> n - 1" unfolding lo_def by linarith
  have len: "length s = n" by (simp add: s_def n_def)
  have lo_lt: "lo < length s" using lo n len by linarith
  have hi_lt: "hi < length s" using n len by (simp add: hi_def)
  have lohi: "lo \<le> hi" using lo by (simp add: hi_def)
  have "sorted s" by (simp add: s_def)
  then have le: "s ! lo \<le> s ! hi"
    using lohi hi_lt by (rule sorted_nth_mono)
  have "real_of_int \<lfloor>pos\<rfloor> \<le> pos" by linarith
  moreover have "0 \<le> \<lfloor>pos\<rfloor>" using pos0 by simp
  ultimately have g: "0 \<le> pos - real lo" unfolding lo_def by simp
  have q: "q = s ! lo + (pos - real lo) * (s ! hi - s ! lo)"
    using assms unfolding s_def n_def pos_def lo_def hi_def
    by (simp add: np_percentile_def Let_def)
  have "s ! lo \<in> set s" using lo_lt by (rule nth_mem)
  then have "s ! lo \<in> set rs" by (simp add: s_def)
  then have "Min (set rs) \<le> s ! lo" by simp
  moreover have "s ! lo \<le> q"
    unfolding q using g le by (simp add: mult_nonneg_nonneg)
  ultimately show ?thesis by linarith
qed

lemma cvar_returns_nonempty:
  assumes "rs \<noteq> []"
  shows "cvar_returns rs \<noteq> []"
proof -
  from np_percentile_Fin[OF assms] obtain q where q: "np_percentile rs 5 = Fin q" ..
  have "Min (set rs) \<in> set rs" using assms by simp
  moreover have "Min (set rs) \<le> q" by (rule percentile_ge_min[OF assms q])
  ultimately show ?thesis
    unfolding cvar_returns_Fin[OF q] by (auto simp: filter_empty_conv)
qed

text \<open>
  Claim C8. For a return series of at least two observations, the conditional VaR is the
  absolute value of the mean of the returns at or below the linearly interpolated 5th
  percentile, multiplied by the portfolio's total value; it is 0.0 when no return is at
  or below that percentile.
\<close>

theorem conditional_var_formula:
  assumes "2 \<le> length (return_series h)"
  shows "\<exists>r q. calculate_portfolio_metrics p h = Inr r
           \<and> np_percentile (return_series h) 5 = Fin q
           \<and> conditional_var r =
               (if filter (\<lambda>x. x \<le> q) (return_series h) = [] then Fin 0
                else Fin \<bar>mean (filter (\<lambda>x. x \<le> q) (return_series h)) * total_value_usd p\<bar>)"
  using conditional_var_normal[OF assms] .

theorem conditional_var_formula_witness:
  "2 \<le> length (return_series h_spec_example)
   \<and> (\<exists>r q. calculate_portfolio_metrics p_example h_spec_example = Inr r
           \<and> np_percentile (return_series h_spec_example) 5 = Fin q
           \<and> conditional_var r =
               (if filter (\<lambda>x. x \<le> q) (return_series h_spec_example) = [] then Fin 0
                else Fin \<bar>mean (filter (\<lambda>x. x \<le> q) (return_series h_spec_example))
                          * total_value_usd p_example\<bar>))"
proof -
  have two: "2 \<le> length (return_series h_spec_example)"
    by (simp add: length_return_series_h_spec_example)
  from conditional_var_formula[OF two, of p_example] two show ?thesis by blast
qed

section \<open>Skewness and kurtosis of small samples\<close>

lemma nanskew_small: "length xs < 3 \<Longrightarrow> nanskew xs = NaN"
  by (simp add: nanskew_def Let_def)

lemma nankurt_small: "length xs < 4 \<Longrightarrow> nankurt xs = NaN"
  by (simp add: nankurt_def Let_def)

text \<open>
  Claim C10. With exactly two usable returns the skewness of the record is 0.0, and with
  fewer than four the kurtosis is 0.0: the estimators are NaN at these sample sizes and
  \<open>safe_float\<close> replaces the NaN by the default.
\<close>

theorem small_sample_skew_kurtosis_zero:
  "\<exists>r. calculate_portfolio_metrics p h = Inr r
     \<and> (length (return_series h) = 2 \<longrightarrow> skewness r = Fin 0)
     \<and> (length (return_series h) < 4 \<longrightarrow> kurtosis r = Fin 0)"
proof (cases "length (return_series h) < 2")
  case True
  then have "calculate_portfolio_metrics p h = Inr (zero_metrics (ident p))"
    by (rule calculate_degenerate)
  then show ?thesis using True by (simp add: zero_metrics_def)
next
  case False
  then have two: "2 \<le> length (return_series h)" by simp
  from calculate_normal[OF two, of p] obtain r where
    r: "calculate_portfolio_metrics p h = Inr r" and
    sk: "skewness r = calc_skewness (return_series h)" and
    ku: "kurtosis r = calc_kurtosis (return_series h)"
    by force
  have "skewness r = Fin 0" if "length (return_series h) = 2"
    using that sk by (simp add: calc_skewness_def nanskew_small safe_float_def)
  moreover have "kurtosis r = Fin 0" if "length (return_series h) < 4"
    using that ku by (simp add: calc_kurtosis_def nankurt_small safe_float_def)
  ultimately show ?thesis using r by blast
qed

theorem small_sample_skew_kurtosis_zero_witness:
  "length (return_series h_two_returns) = 2 \<and> length (return_series h_two_returns) < 4
   \<and> (\<exists>r. calculate_portfolio_metrics p_example h_two_returns = Inr r
          \<and> skewness r = Fin 0 \<and> kurtosis r = Fin 0)"
proof -
  have l: "length (return_series h_two_returns) = 2"
    by (simp add: return_series_h_two_returns)
  from small_sample_skew_kurtosis_zero[of p_example h_two_returns] l show ?thesis by auto
qed

section \<open>Equal returns under rounding\<close>

lemma floor_log2_eq:
  assumes "0 < a" "2 powi e \<le> a" "a < 2 powi (e + 1)"
  shows "\<lfloor>log 2 a\<rfloor> = e"
proof -
  have a: "2 powr real_of_int e = (2::real) powi e"
    by (rule powr_real_of_int') auto
  have b: "2 powr real_of_int (e + 1) = (2::real) powi (e + 1)"
    by (rule powr_real_of_int') auto
  have "\<lfloor>log 2 a\<rfloor> = e \<longleftrightarrow>
      2 powr real_of_int e \<le> a \<and> a < 2 powr real_of_int (e + 1)"
    by (rule floor_log_eq_powr_iff) (use assms in auto)
  then show ?thesis unfolding a b using assms by blast
qed

lemma floor_log2_binade:
  assumes "0 < a"
  shows "2 powi \<lfloor>log 2 a\<rfloor> \<le> a \<and> a < 2 powi (\<lfloor>log 2 a\<rfloor> + 1)"
proof -
  have a: "2 powr real_of_int \<lfloor>log 2 a\<rfloor> = (2::real) powi \<lfloor>log 2 a\<rfloor>"
    by (rule powr_real_of_int') auto
  have b: "2 powr real_of_int (\<lfloor>log 2 a\<rfloor> + 1) = (2::real) powi (\<lfloor>log 2 a\<rfloor> + 1)"
    by (rule powr_real_of_int') auto
  have "\<lfloor>log 2 a\<rfloor> = \<lfloor>log 2 a\<rfloor> \<longleftrightarrow>
      2 powr real_of_int \<lfloor>log 2 a\<rfloor> \<le> a \<and> a < 2 powr real_of_int (\<lfloor>log 2 a\<rfloor> + 1)"
    by (rule floor_log_eq_powr_iff) (use assms in auto)
  then show ?thesis unfolding a b by blast
qed

lemma fl64_eval:
  assumes "x \<noteq> 0" "2 powi e \<le> \<bar>x\<bar>" "\<bar>x\<bar> < 2 powi (e + 1)"
  shows "fl64 x = of_int (round_half_even (x / 2 powi (e - 52))) * 2 powi (e - 52)"
proof -
  have "\<lfloor>log 2 \<bar>x\<bar>\<rfloor> = e"
    using assms by (intro floor_log2_eq) auto
  then show ?thesis using assms(1) by (simp add: fl64_def Let_def)
qed

lemma round_half_even_bounds:
  "\<lfloor>y\<rfloor> \<le> round_half_even y \<and> round_half_even y \<le> \<lfloor>y\<rfloor> + 1"
  by (simp add: round_half_even_def Let_def)

lemma fl64_binade:
  assumes "0 < x" "2 powi e \<le> x" "x < 2 powi (e + 1)"
  shows "2 powi e \<le> fl64 x \<and> fl64 x \<le> 2 powi (e + 1)"
proof -
  define u :: real where "u = 2 powi (e - 52)"
  define y where "y = x / u"
  define m where "m = round_half_even y"
  have u: "0 < u" by (simp add: u_def)
  have lo: "2 powi e = 2 ^ 52 * u"
    by (simp add: u_def power_int_diff)
  have hi: "2 powi (e + 1) = 2 ^ 53 * u"
    by (simp add: u_def power_int_diff power_int_add)
  have "2 ^ 52 * u \<le> x" using assms(2) lo by simp
  then have y1: "2 ^ 52 \<le> y" using u by (simp add: y_def pos_le_divide_eq)
  have "x < 2 ^ 53 * u" using assms(3) hi by simp
  then have y2: "y < 2 ^ 53" using u by (simp add: y_def pos_divide_less_eq)
  have "(2::int) ^ 52 \<le> \<lfloor>y\<rfloor>" using y1 by (simp add: le_floor_iff)
  then have m1: "2 ^ 52 \<le> m" using round_half_even_bounds[of y] unfolding m_def by linarith
  have "\<lfloor>y\<rfloor> < (2::int) ^ 53" using y2 by (simp add: floor_less_iff)
  then have m2: "m \<le> 2 ^ 53" using round_half_even_bounds[of y] unfolding m_def by linarith
  have f: "fl64 x = of_int m * u"
    using fl64_eval[of x e] assms by (simp add: m_def y_def u_def)
  have "2 ^ 52 * u \<le> of_int m * u"
    using m1 u by (simp add: mult_le_cancel_right)
  moreover have "of_int m * u \<le> 2 ^ 53 * u"
    using m2 u by (simp add: mult_le_cancel_right)
  ultimately show ?thesis using f lo hi by simp
qed

lemma fl64_pow2: "fl64 (2 powi k) = 2 powi k"
proof -
  have "fl64 (2 powi k) =
      of_int (round_half_even (2 powi k / 2 powi (k - 52))) * 2 powi (k - 52)"
    by (rule fl64_eval) (simp_all add: power_int_add)
  moreover have "(2::real) powi k / 2 powi (k - 52) = 2 ^ 52"
    by (simp add: power_int_diff)
  moreover have "round_half_even (2 ^ 52) = 2 ^ 52"
    by (simp add: round_half_even_def Let_def)
  ultimately show ?thesis by (simp add: power_int_diff)
qed

lemma power_int_2_less_cancel:
  assumes "(2::real) powi a < 2 powi b" shows "a < b"
proof (rule ccontr)
  assume "\<not> a < b"
  then have "b \<le> a" by simp
  then have "(2::real) powi b \<le> 2 powi a" by (intro power_int_increasing) auto
  with assms show False by simp
qed

lemma fl64_ge_pow2:
  assumes "0 < x" "2 powi k \<le> x"
  shows "2 powi k \<le> fl64 x"
proof -
  define e where "e = \<lfloor>log 2 x\<rfloor>"
  have b: "2 powi e \<le> x" "x < 2 powi (e + 1)"
    using floor_log2_binade[OF assms(1)] by (simp_all add: e_def)
  have "(2::real) powi k < 2 powi (e + 1)" using assms(2) b(2) by linarith
  then have "k \<le> e" using power_int_2_less_cancel[of k "e + 1"] by simp
  then have "(2::real) powi k \<le> 2 powi e" by (intro power_int_increasing) auto
  also have "\<dots> \<le> fl64 x" using fl64_binade[OF assms(1) b] by simp
  finally show ?thesis .
qed

lemma fl64_le_pow2:
  assumes "0 < x" "x \<le> 2 powi k"
  shows "fl64 x \<le> 2 powi k"
proof (cases "x = 2 powi k")
  case True
  then show ?thesis by (simp add: fl64_pow2)
next
  case False
  define e where "e = \<lfloor>log 2 x\<rfloor>"
  have b: "2 powi e \<le> x" "x < 2 powi (e + 1)"
    using floor_log2_binade[OF assms(1)] by (simp_all add: e_def)
  have "(2::real) powi e < 2 powi k" using assms(2) False b(1) by linarith
  then have "e + 1 \<le> k" using power_int_2_less_cancel[of e k] by simp
  then have "(2::real) powi (e + 1) \<le> 2 powi k" by (intro power_int_increasing) auto
  moreover have "fl64 x \<le> 2 powi (e + 1)" using fl64_binade[OF assms(1) b] by simp
  ultimately show ?thesis by linarith
qed

lemma fl64_exact:
  assumes "x \<noteq> 0" "2 powi e \<le> \<bar>x\<bar>" "\<bar>x\<bar> < 2 powi (e + 1)"
    "round_half_even (x / 2 powi (e - 52)) = m" "of_int m * 2 powi (e - 52) = y"
  shows "fl64 x = y"
  using fl64_eval[OF assms(1-3)] assms(4,5) by simp

lemma fl64_7_3: "fl64 (7 / 3) = 5254199565265579 / 2251799813685248"
  by (rule fl64_exact[where e = 1 and m = 5254199565265579])
    (simp_all add: round_half_even_def Let_def power_int_minus)

lemma fl64_r_residue: "fl64 r_residue = r_residue"
  unfolding r_residue_def
  by (rule fl64_exact[where e = 0 and m = 6004799503160662])
    (simp_all add: round_half_even_def Let_def power_int_minus)

lemma fl64_2r: "fl64 (2 * r_residue) = 3002399751580331 / 1125899906842624"
  unfolding r_residue_def
  by (rule fl64_exact[where e = 1 and m = 6004799503160662])
    (simp_all add: round_half_even_def Let_def power_int_minus)

lemma fl64_3r: "fl64 (3002399751580331 / 1125899906842624 + r_residue) = 4"
  unfolding r_residue_def
  by (rule fl64_exact[where e = 2 and m = 4503599627370496])
    (simp_all add: round_half_even_def Let_def power_int_minus)

lemma fl64_4_3: "fl64 (4 / 3) = 6004799503160661 / 4503599627370496"
  by (rule fl64_exact[where e = 0 and m = 6004799503160661])
    (simp_all add: round_half_even_def Let_def power_int_minus)

lemma fl64_inv_pow2: "fl64 (1 / 2 ^ n) = 1 / 2 ^ n"
  using fl64_pow2[of "- int n"] by (simp add: power_int_minus divide_inverse)

lemma return_series_f64_h_residue:
  "return_series_f64 h_residue = [r_residue, r_residue, r_residue]"
proof -
  have one: "fl_round (fl_sub (Fin (5254199565265579 / 2251799813685248)) (Fin 1)) = Fin r_residue"
    using fl64_r_residue by (simp add: fl_sub_def r_residue_def)
  have pc: "pct_change_f64 (map val h_residue) = [NaN, Fin r_residue, Fin r_residue, Fin r_residue]"
    by (simp add: h_residue_def fl64_7_3 one)
  have "assign_column (length h_residue) (dropna (pct_change_f64 (map val h_residue)))
      = pct_change_f64 (map val h_residue)"
    using assign_dropna[of "pct_change_f64 (map val h_residue)"]
    by (simp add: pc) (simp add: h_residue_def)
  then show ?thesis
    by (simp add: return_series_f64_def pc mask_finite_def reals_of_def List.map_filter_simps)
qed

lemma np_sum_f64_3: "np_sum_f64 [a, b, c] = fl64 (fl64 (fl64 a + b) + c)"
  by (simp add: np_sum_f64_def)

lemma np_sum_r: "np_sum_f64 [r_residue, r_residue, r_residue] = 4"
proof -
  have two: "r_residue + r_residue = 2 * r_residue" by simp
  have "np_sum_f64 [r_residue, r_residue, r_residue]
      = fl64 (fl64 (fl64 r_residue + r_residue) + r_residue)"
    by (rule np_sum_f64_3)
  also have "\<dots> = fl64 (3002399751580331 / 1125899906842624 + r_residue)"
    by (simp only: fl64_r_residue two fl64_2r)
  also have "\<dots> = 4" by (rule fl64_3r)
  finally show ?thesis .
qed

lemma np_std_r: "np_std_f64 [r_residue, r_residue, r_residue] = Fin (1 / 2 ^ 52)"
proof -
  define mu :: real where "mu = 6004799503160661 / 4503599627370496"
  define d :: real where "d = 1 / 2 ^ 52"
  define a :: real where "a = 1 / 2 ^ 104"
  have len: "real (length [r_residue, r_residue, r_residue]) = 3" by simp
  have "fl64 (4 / 3) = mu" by (simp only: fl64_4_3 mu_def)
  then have m: "fl64 (np_sum_f64 [r_residue, r_residue, r_residue]
      / real (length [r_residue, r_residue, r_residue])) = mu"
    by (simp only: np_sum_r len)
  have "r_residue - mu = d" by (simp add: r_residue_def mu_def d_def)
  moreover have fd: "fl64 d = d" unfolding d_def by (rule fl64_inv_pow2)
  ultimately have dev: "fl64 (r_residue - mu) = d" by simp
  have x: "map (\<lambda>a. fl64 (a - mu)) [r_residue, r_residue, r_residue] = [d, d, d]"
    by (simp only: list.map dev)
  have "d * d = a" by (simp add: d_def a_def)
  moreover have fa: "fl64 a = a" unfolding a_def by (rule fl64_inv_pow2)
  ultimately have sq: "fl64 (d * d) = a" by simp
  have x2: "map (\<lambda>d. fl64 (d * d)) [d, d, d] = [a, a, a]"
    by (simp only: list.map sq)
  have "a + a = 1 / 2 ^ 103" by (simp add: a_def)
  then have faa: "fl64 (a + a) = 1 / 2 ^ 103" by (simp only: fl64_inv_pow2)
  have f3: "fl64 (3 / 2 ^ 104) = 3 / 2 ^ 104"
    by (rule fl64_exact[where e = "- 103" and m = 6755399441055744])
      (simp_all add: round_half_even_def Let_def power_int_minus)
  have e3: "1 / 2 ^ 103 + a = 3 / 2 ^ 104" by (simp add: a_def)
  have f3a: "fl64 (1 / 2 ^ 103 + a) = 3 / 2 ^ 104" by (simp only: e3 f3)
  have "np_sum_f64 [a, a, a] = fl64 (fl64 (fl64 a + a) + a)" by (rule np_sum_f64_3)
  also have "\<dots> = 3 / 2 ^ 104" by (simp only: fa faa f3a)
  finally have sum: "np_sum_f64 [a, a, a] = 3 / 2 ^ 104" .
  have e4: "3 / 2 ^ 104 / 3 = a" by (simp add: a_def)
  have ret: "fl64 (np_sum_f64 [a, a, a] / real (length [r_residue, r_residue, r_residue])) = a"
    by (simp only: sum len e4 fa)
  have e5: "sqrt a = d"
    unfolding a_def d_def by (rule real_sqrt_unique) (simp_all add: power2_eq_square)
  have sd: "fl64 (sqrt a) = d" by (simp only: e5 fd)
  have "np_std_f64 [r_residue, r_residue, r_residue] = Fin d"
    unfolding np_std_f64_def Let_def m x x2 ret sd by simp
  then show ?thesis by (simp only: d_def)
qed

lemma fl64_sqrt_252_bounds: "8 \<le> fl64 (sqrt 252) \<and> fl64 (sqrt 252) \<le> 16"
proof -
  have lo: "8 \<le> sqrt 252" by (rule real_le_rsqrt) simp
  have hi: "sqrt 252 \<le> 16" by (rule real_le_lsqrt) simp_all
  have pos: "0 < sqrt 252" by simp
  have "2 powi 3 \<le> fl64 (sqrt 252)"
    by (rule fl64_ge_pow2[OF pos]) (use lo in simp)
  moreover have "fl64 (sqrt 252) \<le> 2 powi 4"
    by (rule fl64_le_pow2[OF pos]) (use hi in simp)
  ultimately show ?thesis by simp
qed

lemma calc_volatility_f64_residue:
  "\<exists>v. calc_volatility_f64 [r_residue, r_residue, r_residue] = Fin v
       \<and> 1 / 2 ^ 49 \<le> v \<and> v \<le> 1 / 2 ^ 48"
proof -
  define s where "s = fl64 (sqrt 252)"
  define x where "x = 1 / 2 ^ 52 * s"
  have s: "8 \<le> s" "s \<le> 16" using fl64_sqrt_252_bounds by (simp_all add: s_def)
  have pos: "0 < x" using s by (simp add: x_def)
  have "2 powi (- 49) \<le> x" using s(1) by (simp add: x_def power_int_minus field_simps)
  then have lo: "2 powi (- 49) \<le> fl64 x" by (rule fl64_ge_pow2[OF pos])
  have "x \<le> 2 powi (- 48)" using s(2) by (simp add: x_def power_int_minus field_simps)
  then have hi: "fl64 x \<le> 2 powi (- 48)" by (rule fl64_le_pow2[OF pos])
  have "calc_volatility_f64 [r_residue, r_residue, r_residue] = Fin (fl64 x)"
    unfolding calc_volatility_f64_def np_std_r
    by (simp add: safe_float_def x_def s_def)
  moreover have "1 / 2 ^ 49 \<le> fl64 x" using lo by (simp add: power_int_minus field_simps)
  moreover have "fl64 x \<le> 1 / 2 ^ 48" using hi by (simp add: power_int_minus field_simps)
  ultimately show ?thesis by blast
qed

lemma np_mean_f64_residue:
  "np_mean_f64 [r_residue, r_residue, r_residue] = Fin (6004799503160661 / 4503599627370496)"
proof -
  have len: "real (length [r_residue, r_residue, r_residue]) = 3" by simp
  have "fl64 (np_sum_f64 [r_residue, r_residue, r_residue]
      / real (length [r_residue, r_residue, r_residue])) = 6004799503160661 / 4503599627370496"
    by (simp only: np_sum_r len fl64_4_3)
  then show ?thesis unfolding np_mean_f64_def by simp
qed

lemma calc_mean_return_f64_residue:
  "calc_mean_return_f64 [r_residue, r_residue, r_residue] = Fin 336"
proof -
  have "fl64 (6004799503160661 / 4503599627370496 * 252) = 336"
    by (rule fl64_exact[where e = 8 and m = 5910974510923776])
      (simp_all add: round_half_even_def Let_def power_int_minus)
  then show ?thesis
    unfolding calc_mean_return_f64_def np_mean_f64_residue
    by (simp add: safe_float_def)
qed

lemma fl64_rate_bounds: "0 < fl64 risk_free_rate \<and> fl64 risk_free_rate \<le> 1 / 32"
proof -
  have pos: "0 < risk_free_rate" by (simp add: risk_free_rate_def)
  have "2 powi (- 6) \<le> fl64 risk_free_rate"
    by (rule fl64_ge_pow2[OF pos]) (simp add: risk_free_rate_def power_int_minus)
  moreover have "fl64 risk_free_rate \<le> 2 powi (- 5)"
    by (rule fl64_le_pow2[OF pos]) (simp add: risk_free_rate_def power_int_minus)
  ultimately show ?thesis by (simp add: power_int_minus)
qed

lemma calc_sharpe_ratio_f64_residue:
  "\<exists>s. calc_sharpe_ratio_f64 [r_residue, r_residue, r_residue] = Inr (Fin s) \<and> 2 ^ 56 \<le> s"
proof -
  from calc_volatility_f64_residue obtain v where
    v: "calc_volatility_f64 [r_residue, r_residue, r_residue] = Fin v"
    and vlo: "1 / 2 ^ 49 \<le> v" and vhi: "v \<le> 1 / 2 ^ 48"
    by blast
  have vpos: "0 < v" using vlo by (simp add: less_le_trans[of 0 "1 / 2 ^ 49"])
  define c where "c = fl64 risk_free_rate"
  have c: "0 < c" "c \<le> 1 / 32" using fl64_rate_bounds by (simp_all add: c_def)
  define n where "n = fl64 (336 - c)"
  have dpos: "0 < 336 - c" using c by simp
  have "2 powi 8 \<le> 336 - c" using c by simp
  then have "2 powi 8 \<le> n" unfolding n_def by (rule fl64_ge_pow2[OF dpos])
  then have n: "256 \<le> n" by simp
  define q where "q = n / v"
  have "256 * 2 ^ 48 \<le> n * 2 ^ 48" using n by simp
  also have "n * 2 ^ 48 \<le> n / v"
  proof -
    have "n * v \<le> n * (1 / 2 ^ 48)" using vhi n by (intro mult_left_mono) auto
    then have "n * 2 ^ 48 * v \<le> n" by (simp add: field_simps)
    then show ?thesis using vpos by (simp add: pos_le_divide_eq)
  qed
  finally have qlo: "2 powi 56 \<le> q" by (simp add: q_def)
  have qpos: "0 < q" using n vpos by (simp add: q_def)
  have "2 powi 56 \<le> fl64 q" using qlo by (rule fl64_ge_pow2[OF qpos])
  then have s: "2 ^ 56 \<le> fl64 q" by simp
  have "calc_sharpe_ratio_f64 [r_residue, r_residue, r_residue] = Inr (Fin (fl64 q))"
    unfolding calc_sharpe_ratio_f64_def ratio_or_zero_f64_def calc_mean_return_f64_residue v
    using vpos
    by (simp add: bind_exc_def py_truediv_def fl_sub_def safe_float_def q_def n_def c_def)
  then show ?thesis using s by blast
qed

text \<open>
  Claim C7. The claim asks for a volatility of 0 and a Sharpe ratio of 0 when all returns
  are equal. For the valuations 27, 63, 147, 343 the three returns are the same double,
  but their rounded mean is one unit in the last place below them: the standard deviation
  is \<open>2\<^sup>-\<^sup>5\<^sup>2\<close>, the volatility is positive, the guard \<^verbatim>\<open>volatility > 0\<close> lets
  the division through, and the Sharpe ratio is above \<open>10\<^sup>1\<^sup>6\<close>.
\<close>

theorem constant_returns_rounding_residue:
  "return_series_f64 h_residue = [r_residue, r_residue, r_residue]
   \<and> np_std_f64 (return_series_f64 h_residue) = Fin (1 / 2 ^ 52)
   \<and> fl_less (Fin 0) (calc_volatility_f64 (return_series_f64 h_residue))
   \<and> \<not> isl (calc_sharpe_ratio_f64 (return_series_f64 h_residue))
   \<and> fl_less (Fin (10 ^ 16)) (projr (calc_sharpe_ratio_f64 (return_series_f64 h_residue)))"
proof -
  from calc_volatility_f64_residue obtain v where
    v: "calc_volatility_f64 [r_residue, r_residue, r_residue] = Fin v" and "1 / 2 ^ 49 \<le> v"
    by blast
  then have vpos: "0 < v" by (simp add: less_le_trans[of 0 "1 / 2 ^ 49"])
  from calc_sharpe_ratio_f64_residue obtain s where
    s: "calc_sharpe_ratio_f64 [r_residue, r_residue, r_residue] = Inr (Fin s)" and "2 ^ 56 \<le> s"
    by blast
  then have big: "10 ^ 16 < s" by simp
  show ?thesis
    unfolding return_series_f64_h_residue np_std_r v s
    using vpos big by simp
qed

end
